theory Spec2Isabelle
  imports Main "HOL-Library.Sublist"
begin

section \<open>The upload/result controller of the BOM extractor (static/js/main.js)\<close>

text \<open>
  The controller is a browser script. Its strings are embedded as \<open>string\<close>; the
  embedding covers ASCII text (code units below 128): \<open>toUpperCase\<close> changes the letters
  \<open>a\<close> to \<open>z\<close> only, and the text-node serialisation behind \<open>escapeHtml\<close> replaces
  \<open>&\<close>, \<open><\<close> and \<open>>\<close> (U+00A0, which it also replaces, is not an ASCII character).
\<close>

subsection \<open>String primitives of the language\<close>

definition toUpper :: "char \<Rightarrow> char" where
  "toUpper c =
     (case map_of (zip ''abcdefghijklmnopqrstuvwxyz'' ''ABCDEFGHIJKLMNOPQRSTUVWXYZ'') c of
        None \<Rightarrow> c
      | Some u \<Rightarrow> u)"

definition toUpperCase :: "string \<Rightarrow> string" where
  "toUpperCase s = map toUpper s"

definition charAt :: "string \<Rightarrow> nat \<Rightarrow> string" where
  \<comment> \<open>the one-character string at the index, the empty string out of range\<close>
  "charAt s i = (if i < length s then [s ! i] else [])"

definition slice :: "string \<Rightarrow> nat \<Rightarrow> string" where
  \<comment> \<open>\<open>s.slice(i)\<close> for a non-negative start\<close>
  "slice s i = drop i s"

fun js_split :: "char \<Rightarrow> string \<Rightarrow> string list" where
  \<comment> \<open>\<open>s.split(sep)\<close> for a one-character separator: never the empty array\<close>
  "js_split sep [] = [[]]"
| "js_split sep (c # cs) =
     (if c = sep then [] # js_split sep cs
      else (case js_split sep cs of
              [] \<Rightarrow> [[c]]
            | w # ws \<Rightarrow> (c # w) # ws))"

definition js_join :: "string \<Rightarrow> string list \<Rightarrow> string" where
  \<comment> \<open>\<open>xs.join(sep)\<close>: the first element, then separator and element for each further one\<close>
  "js_join sep xs =
     (case xs of
        [] \<Rightarrow> []
      | x # rest \<Rightarrow> foldl (\<lambda>r y. r @ sep @ y) x rest)"

subsection \<open>formatHeader (main.js, lines 153 to 158)\<close>

definition formatHeader :: "string \<Rightarrow> string" where
  "formatHeader key =
     js_join '' ''
       (map (\<lambda>word. toUpperCase (charAt word 0) @ slice word 1)
          (js_split (CHR ''_'') key))"

text \<open>
  The reading of the specification, defined independently of the code: the segments
  between underscores, each with its first letter capitalised, joined by single spaces.
\<close>

function spec_segments :: "string \<Rightarrow> string list" where
  "spec_segments s =
     (case dropWhile (\<lambda>c. c \<noteq> CHR ''_'') s of
        [] \<Rightarrow> [s]
      | u # r \<Rightarrow> takeWhile (\<lambda>c. c \<noteq> CHR ''_'') s # spec_segments r)"
  by pat_completeness auto
termination
proof (relation "measure length")
  show "wf (measure length)" by simp
next
  fix s :: string and u r
  assume "dropWhile (\<lambda>c. c \<noteq> CHR ''_'') s = u # r"
  then have "length (u # r) \<le> length s"
    by (metis length_dropWhile_le)
  then show "(r, s) \<in> measure length" by simp
qed

fun spec_capitalize :: "string \<Rightarrow> string" where
  "spec_capitalize [] = []"
| "spec_capitalize (c # cs) = toUpper c # cs"

fun spec_unwords :: "string list \<Rightarrow> string" where
  "spec_unwords [] = []"
| "spec_unwords [w] = w"
| "spec_unwords (w # v # ws) = w @ CHR '' '' # spec_unwords (v # ws)"

definition spec_formatHeader :: "string \<Rightarrow> string" where
  "spec_formatHeader key = spec_unwords (map spec_capitalize (spec_segments key))"

section \<open>Values of the language\<close>

text \<open>
  The response body is whatever \<open>response.json()\<close> yields, so the values the controller
  reads are JSON values, \<open>undefined\<close> for a property that is absent, and the built-in
  members an object inherits. A number is \<open>JNum n\<close> when it is a safe integer (of
  magnitude below \<open>2^53\<close>, printed in plain decimal) and \<open>JFloat t\<close> otherwise (a fraction
  such as 1.25, or a number of larger magnitude such as 1e+21), identified by the text
  \<open>t\<close> that \<open>String\<close> prints for it. An object is the list of its own properties in the
  order \<open>Object.keys\<close> reports them, each key once. \<open>JFunction name\<close> is the built-in
  function of that name.
\<close>

datatype jsval =
    JUndefined
  | JNull
  | JBool bool
  | JNum int
  | JFloat string
  | JStr string
  | JArr "jsval list"
  | JObj "(string \<times> jsval) list"
  | JFunction string

text \<open>A thrown error object, with its \<open>message\<close>.\<close>

datatype js_error = TypeError string | SyntaxError string

fun error_message :: "js_error \<Rightarrow> string" where
  "error_message (TypeError m) = m"
| "error_message (SyntaxError m) = m"

fun show_nat :: "nat \<Rightarrow> string" where
  "show_nat n =
     (if n < 10 then [''0123456789'' ! n]
      else show_nat (n div 10) @ [''0123456789'' ! (n mod 10)])"

declare show_nat.simps [simp del]

definition show_int :: "int \<Rightarrow> string" where
  "show_int i = (if i < 0 then CHR ''-'' # show_nat (nat (- i)) else show_nat (nat i))"

fun js_String :: "jsval \<Rightarrow> string" where
  \<comment> \<open>\<open>String(v)\<close>; an array joins its elements with commas, \<open>null\<close> and \<open>undefined\<close>
      elements as empty strings\<close>
  "js_String JUndefined = ''undefined''"
| "js_String JNull = ''null''"
| "js_String (JBool b) = (if b then ''true'' else ''false'')"
| "js_String (JNum n) = show_int n"
| "js_String (JFloat t) = t"
| "js_String (JStr s) = s"
| "js_String (JArr xs) =
     js_join '',''
       (map (\<lambda>x. if x = JNull \<or> x = JUndefined then [] else js_String x) xs)"
| "js_String (JObj kvs) = ''[object Object]''"
| "js_String (JFunction name) = ''function '' @ name @ ''() { [native code] }''"

text \<open>
  \<open>js_String\<close> is \<open>String\<close> on the values below: a number \<open>JNum n\<close> that is a safe
  integer; an object that has no own property \<open>toString\<close>, so that the inherited method
  answers (an own one, which in a parsed body is never a function, makes \<open>String\<close> throw);
  an array of such values. The text of a built-in function is V8's and differs between
  engines.
\<close>

fun plain :: "jsval \<Rightarrow> bool" where
  "plain (JNum n) = (- (2 ^ 53) < n \<and> n < 2 ^ 53)"
| "plain (JArr xs) = (\<forall>x\<in>set xs. plain x)"
| "plain (JObj kvs) = (''toString'' \<notin> set (map fst kvs))"
| "plain v = True"

text \<open>
  The order in which \<open>Object.keys\<close> reports the keys of an object: first the keys that
  are array indices (canonical decimal numbers below \<open>2^32 - 1\<close>), in ascending numeric
  order, then the other keys.
\<close>

definition index_value :: "string \<Rightarrow> int" where
  "index_value k =
     foldl (\<lambda>n c. 10 * n + int (length (takeWhile (\<lambda>d. d \<noteq> c) ''0123456789''))) 0 k"

definition is_array_index :: "string \<Rightarrow> bool" where
  "is_array_index k =
     (k \<noteq> [] \<and> list_all (\<lambda>c. c \<in> set ''0123456789'') k \<and>
      (k = ''0'' \<or> hd k \<noteq> CHR ''0'') \<and> index_value k < 4294967295)"

definition keys_in_order :: "string list \<Rightarrow> bool" where
  "keys_in_order ks =
     (ks = filter is_array_index ks @ filter (\<lambda>k. \<not> is_array_index k) ks \<and>
      sorted_wrt (<) (map index_value (filter is_array_index ks)))"

definition plain_record :: "(string \<times> jsval) list \<Rightarrow> bool" where
  \<comment> \<open>a record as a parsed body holds it: each key once, the keys in the order
      \<open>Object.keys\<close> reports them, every value one that \<open>js_String\<close> converts as
      \<open>String\<close> does\<close>
  "plain_record rec =
     (distinct (map fst rec) \<and> keys_in_order (map fst rec) \<and>
      (\<forall>v\<in>set (map snd rec). plain v))"

fun truthy :: "jsval \<Rightarrow> bool" where
  \<comment> \<open>the values that count as true for \<open>&&\<close>, \<open>||\<close>, \<open>!\<close> and \<open>if\<close>\<close>
  "truthy JUndefined = False"
| "truthy JNull = False"
| "truthy (JBool b) = b"
| "truthy (JNum n) = (n \<noteq> 0)"
| "truthy (JFloat t) = (t \<noteq> ''NaN'')"
| "truthy (JStr s) = (s \<noteq> [])"
| "truthy (JArr xs) = True"
| "truthy (JObj kvs) = True"
| "truthy (JFunction name) = True"

definition textContent_of :: "jsval \<Rightarrow> string" where
  \<comment> \<open>the text an element shows after \<open>el.textContent = v\<close>: the attribute is a nullable
      string, so \<open>null\<close> and \<open>undefined\<close> give the empty text\<close>
  "textContent_of v = (if v = JNull \<or> v = JUndefined then [] else js_String v)"

definition cannot_read :: "string \<Rightarrow> string \<Rightarrow> js_error" where
  \<comment> \<open>the TypeError of a property read on \<open>null\<close> or \<open>undefined\<close>, in V8's wording; other
      engines word it differently, and no property below depends on the wording\<close>
  "cannot_read what k =
     TypeError (''Cannot read properties of '' @ what @ '' (reading '' @ [CHR 0x27] @ k
                @ [CHR 0x27] @ '')'')"

definition array_index :: "string \<Rightarrow> nat \<Rightarrow> nat option" where
  \<comment> \<open>the index below \<open>n\<close> that the property key spells in canonical decimal, if any\<close>
  "array_index k n = find (\<lambda>i. show_nat i = k) [0..<n]"

text \<open>
  The members a plain object inherits from \<open>Object.prototype\<close>, found by a property read
  when the object has no own property of that name. \<open>constructor\<close> is the function
  \<open>Object\<close>; \<open>__proto__\<close> is the prototype object itself, which \<open>String\<close> prints as any
  object and which stands here as an object with no own properties.
\<close>

definition Object_prototype :: "(string \<times> jsval) list" where
  "Object_prototype =
     [(''constructor'', JFunction ''Object''),
      (''__defineGetter__'', JFunction ''__defineGetter__''),
      (''__defineSetter__'', JFunction ''__defineSetter__''),
      (''hasOwnProperty'', JFunction ''hasOwnProperty''),
      (''__lookupGetter__'', JFunction ''__lookupGetter__''),
      (''__lookupSetter__'', JFunction ''__lookupSetter__''),
      (''isPrototypeOf'', JFunction ''isPrototypeOf''),
      (''propertyIsEnumerable'', JFunction ''propertyIsEnumerable''),
      (''toString'', JFunction ''toString''),
      (''valueOf'', JFunction ''valueOf''),
      (''__proto__'', JObj []),
      (''toLocaleString'', JFunction ''toLocaleString'')]"

definition field :: "(string \<times> jsval) list \<Rightarrow> string \<Rightarrow> jsval" where
  \<comment> \<open>what reading the property gives on an object: its own value, else the inherited
      member, else \<open>undefined\<close>\<close>
  "field kvs k =
     (case map_of kvs k of
        Some v \<Rightarrow> v
      | None \<Rightarrow>
          (case map_of Object_prototype k of
             Some m \<Rightarrow> m
           | None \<Rightarrow> JUndefined))"

fun js_get :: "jsval \<Rightarrow> string \<Rightarrow> js_error + jsval" where
  \<comment> \<open>the property read \<open>v[k]\<close> (and \<open>v.k\<close>). On a value that is not an object the read
      gives the own properties (\<open>length\<close> and the indices); the members such a value
      inherits are left out: the script reads them under the literal keys \<open>length\<close> and
      \<open>0\<close> only, and under a record's keys in \<open>item[key]\<close>, where the statements below take
      every item to be an object\<close>
  "js_get JUndefined k = Inl (cannot_read ''undefined'' k)"
| "js_get JNull k = Inl (cannot_read ''null'' k)"
| "js_get (JBool b) k = Inr JUndefined"
| "js_get (JNum n) k = Inr JUndefined"
| "js_get (JFloat t) k = Inr JUndefined"
| "js_get (JFunction name) k = Inr JUndefined"
| "js_get (JStr s) k =
     (if k = ''length'' then Inr (JNum (int (length s)))
      else (case array_index k (length s) of
              None \<Rightarrow> Inr JUndefined
            | Some i \<Rightarrow> Inr (JStr [s ! i])))"
| "js_get (JArr xs) k =
     (if k = ''length'' then Inr (JNum (int (length xs)))
      else (case array_index k (length xs) of
              None \<Rightarrow> Inr JUndefined
            | Some i \<Rightarrow> Inr (xs ! i)))"
| "js_get (JObj kvs) k = Inr (field kvs k)"

fun Object_keys :: "jsval \<Rightarrow> js_error + string list" where
  "Object_keys JUndefined = Inl (TypeError ''Cannot convert undefined or null to object'')"
| "Object_keys JNull = Inl (TypeError ''Cannot convert undefined or null to object'')"
| "Object_keys (JBool b) = Inr []"
| "Object_keys (JNum n) = Inr []"
| "Object_keys (JFloat t) = Inr []"
| "Object_keys (JFunction name) = Inr []"
| "Object_keys (JStr s) = Inr (map show_nat [0..<length s])"
| "Object_keys (JArr xs) = Inr (map show_nat [0..<length xs])"
| "Object_keys (JObj kvs) = Inr (map fst kvs)"

fun forEach :: "'a list \<Rightarrow> ('a \<Rightarrow> 's \<Rightarrow> js_error + 's) \<Rightarrow> 's \<Rightarrow> js_error + 's" where
  \<comment> \<open>\<open>xs.forEach(f)\<close> for a callback that updates a captured variable and may throw\<close>
  "forEach [] f s = Inr s"
| "forEach (x # xs) f s =
     (case f x s of
        Inl e \<Rightarrow> Inl e
      | Inr s' \<Rightarrow> forEach xs f s')"

fun js_forEach :: "jsval \<Rightarrow> string \<Rightarrow> (jsval \<Rightarrow> 's \<Rightarrow> js_error + 's) \<Rightarrow> 's \<Rightarrow> js_error + 's" where
  \<comment> \<open>\<open>v.forEach(f)\<close> on a value read from the response: only an array has the method;
      the second argument is the text of the callee, for the error message\<close>
  "js_forEach (JArr xs) callee f s = forEach xs f s"
| "js_forEach JUndefined callee f s = Inl (cannot_read ''undefined'' ''forEach'')"
| "js_forEach JNull callee f s = Inl (cannot_read ''null'' ''forEach'')"
| "js_forEach v callee f s = Inl (TypeError (callee @ '' is not a function''))"

section \<open>Building the table (main.js, lines 125 to 164)\<close>

text \<open>
  \<open>escapeHtml\<close> stores the text in a fresh element and reads the element's markup back:
  the browser's serialisation of a text node, which replaces \<open>&\<close>, \<open><\<close> and \<open>>\<close> by their
  character references and leaves every other ASCII character as it is.
\<close>

definition escape_char :: "char \<Rightarrow> string" where
  "escape_char c =
     (if c = CHR ''&'' then ''&amp;''
      else if c = CHR ''<'' then ''&lt;''
      else if c = CHR ''>'' then ''&gt;''
      else [c])"

definition escapeHtml :: "string \<Rightarrow> string" where
  "escapeHtml text = concat (map escape_char text)"

definition render_cell :: "jsval \<Rightarrow> string \<Rightarrow> string \<Rightarrow> js_error + string" where
  \<comment> \<open>the body of the inner callback, lines 143 and 144\<close>
  "render_cell item key html =
     (case js_get item key of
        Inl e \<Rightarrow> Inl e
      | Inr v \<Rightarrow>
          let value = (if v \<noteq> JNull \<and> v \<noteq> JUndefined then v else JStr ''-'')
          in Inr (html @ ''<td>'' @ escapeHtml (js_String value) @ ''</td>''))"

definition render_row :: "string list \<Rightarrow> jsval \<Rightarrow> string \<Rightarrow> js_error + string" where
  \<comment> \<open>the body of the outer callback, lines 141 to 146\<close>
  "render_row keys item html =
     (case forEach keys (render_cell item) (html @ ''<tr>'') of
        Inl e \<Rightarrow> Inl e
      | Inr html' \<Rightarrow> Inr (html' @ ''</tr>''))"

definition createTable :: "jsval \<Rightarrow> js_error + string" where
  \<comment> \<open>the new markup of the \<open>dataTable\<close> element, or the error thrown before it is set\<close>
  "createTable items =
     (case js_get items ''length'' of
        Inl e \<Rightarrow> Inl e
      | Inr len \<Rightarrow>
          if len = JNum 0 then Inr ''<p>No items found</p>''
          else
            (case js_get items ''0'' of
               Inl e \<Rightarrow> Inl e
             | Inr first \<Rightarrow>
                 (case Object_keys first of
                    Inl e \<Rightarrow> Inl e
                  | Inr keys \<Rightarrow>
                      (case forEach keys
                              (\<lambda>key html. Inr (html @ ''<th>'' @ formatHeader key @ ''</th>''))
                              ''<table><thead><tr>'' of
                         Inl e \<Rightarrow> Inl e
                       | Inr html1 \<Rightarrow>
                           (case js_forEach items ''items.forEach'' (render_row keys)
                                   (html1 @ ''</tr></thead><tbody>'') of
                              Inl e \<Rightarrow> Inl e
                            | Inr html2 \<Rightarrow> Inr (html2 @ ''</tbody></table>''))))))"

text \<open>
  The table the specification describes for a list of records, in closed form: one
  header per column key, and in every row one cell per column key. The cell holds the
  escaped text of the value the record has for the key, its own or else the member it
  inherits under that name, and the placeholder when that value is \<open>null\<close> or \<open>undefined\<close>
  or there is none.
\<close>

definition spec_cell :: "(string \<times> jsval) list \<Rightarrow> string \<Rightarrow> string" where
  "spec_cell rec key =
     (case map_of rec key of
        Some v \<Rightarrow> if v = JNull \<or> v = JUndefined then ''-'' else escapeHtml (js_String v)
      | None \<Rightarrow>
          (case map_of Object_prototype key of
             Some m \<Rightarrow> escapeHtml (js_String m)
           | None \<Rightarrow> ''-''))"

definition spec_row :: "string list \<Rightarrow> (string \<times> jsval) list \<Rightarrow> string" where
  "spec_row keys rec =
     ''<tr>'' @ concat (map (\<lambda>key. ''<td>'' @ spec_cell rec key @ ''</td>'') keys) @ ''</tr>''"

definition spec_table :: "string list \<Rightarrow> (string \<times> jsval) list list \<Rightarrow> string" where
  "spec_table keys recs =
     ''<table><thead><tr>''
     @ concat (map (\<lambda>key. ''<th>'' @ formatHeader key @ ''</th>'') keys)
     @ ''</tr></thead><tbody>''
     @ concat (map (spec_row keys) recs)
     @ ''</tbody></table>''"

text \<open>
  The other reading of the specification's sentence on heterogeneous records: a ragged
  table, each row made of the cells of the record's own keys.
\<close>

definition spec_ragged_table :: "(string \<times> jsval) list list \<Rightarrow> string" where
  "spec_ragged_table recs =
     ''<table><thead><tr>''
     @ concat (map (\<lambda>key. ''<th>'' @ formatHeader key @ ''</th>'') (map fst (hd recs)))
     @ ''</tr></thead><tbody>''
     @ concat (map (\<lambda>rec. spec_row (map fst rec) rec) recs)
     @ ''</tbody></table>''"


section \<open>The page and the controller's state\<close>

text \<open>A \<open>File\<close> object of the browser, with the two properties the script reads.\<close>

record file_obj =
  file_name :: string
  file_type :: string

text \<open>The values the script gives to \<open>style.display\<close>: none, block and flex.\<close>

datatype display = DNone | DBlock | DFlex

text \<open>
  Everything the script reads or writes: its variable \<open>currentFiles\<close> (\<open>None\<close> for
  \<open>null\<close>) and the properties of the page's elements, each field named after the element
  and the property. \<open>bomType_default\<close> is the processing mode the markup preselects, which
  a form reset restores; \<open>download_files\<close> is the \<open>files\<close> object the two download
  handlers hold after a result was displayed.
\<close>

record ui =
  currentFiles :: "file_obj list option"
  fileName_text :: string
  fileLabel_has_file :: bool
  fileLabel_drag_over :: bool
  bomType_value :: string
  bomType_default :: string
  submitBtn_disabled :: bool
  btnText_display :: display
  btnLoader_display :: display
  uploadSection_display :: display
  resultsSection_display :: display
  errorSection_display :: display
  errorMessage_text :: string
  totalItems_text :: string
  bomTypeDisplay_text :: string
  documentTitle_text :: string
  dataTable_innerHTML :: string
  download_files :: "jsval option"

definition visible :: "display \<Rightarrow> bool" where
  "visible d = (d \<noteq> DNone)"

definition visible_sections :: "ui \<Rightarrow> nat" where
  \<comment> \<open>how many of the Upload, Results and Error sections are shown\<close>
  "visible_sections s =
     length (filter visible
       [uploadSection_display s, resultsSection_display s, errorSection_display s])"

subsection \<open>showError, hideError, resetForm, setLoading (lines 86 to 99 and 166 to 185)\<close>

definition showError :: "jsval \<Rightarrow> ui \<Rightarrow> ui" where
  "showError message s =
     s\<lparr>errorSection_display := DBlock,
       errorMessage_text := textContent_of message,
       uploadSection_display := DNone,
       resultsSection_display := DNone\<rparr>"

definition hideError :: "ui \<Rightarrow> ui" where
  "hideError s = s\<lparr>errorSection_display := DNone\<rparr>"

definition resetForm :: "ui \<Rightarrow> ui" where
  \<comment> \<open>\<open>uploadForm.reset()\<close> returns the mode selector to the markup's default\<close>
  "resetForm s =
     s\<lparr>uploadSection_display := DBlock,
       resultsSection_display := DNone,
       errorSection_display := DNone,
       bomType_value := bomType_default s,
       fileName_text := ''Choose PDF file or drag & drop'',
       fileLabel_has_file := False,
       currentFiles := None\<rparr>"

definition setLoading :: "bool \<Rightarrow> ui \<Rightarrow> ui" where
  "setLoading loading s =
     (if loading
      then s\<lparr>btnText_display := DNone, btnLoader_display := DFlex, submitBtn_disabled := True\<rparr>
      else s\<lparr>btnText_display := DBlock, btnLoader_display := DNone,
             submitBtn_disabled := False\<rparr>)"

subsection \<open>handleFileSelect (lines 36 to 47)\<close>

definition handleFileSelect :: "file_obj list \<Rightarrow> ui \<Rightarrow> ui" where
  "handleFileSelect files s =
     (case files of
        [] \<Rightarrow> s
      | file # others \<Rightarrow>
          if file_type file = ''application/pdf''
          then s\<lparr>currentFiles := Some files,
                 fileName_text := file_name file,
                 fileLabel_has_file := True\<rparr>
          else showError (JStr ''Please select a PDF file'') s)"

subsection \<open>displayResults (lines 101 to 123)\<close>

text \<open>
  A statement that may throw: the error leaves the state as it is at that point and
  skips the rest.
\<close>

definition attempt ::
  "js_error + 'a \<Rightarrow> ui \<Rightarrow> ('a \<Rightarrow> js_error option \<times> ui) \<Rightarrow> js_error option \<times> ui" where
  "attempt r s k = (case r of Inl e \<Rightarrow> (Some e, s) | Inr v \<Rightarrow> k v)"

definition call_toUpperCase :: "jsval \<Rightarrow> js_error + string" where
  \<comment> \<open>\<open>data.bom_type.toUpperCase()\<close>: only a string has the method\<close>
  "call_toUpperCase v =
     (case v of
        JStr s \<Rightarrow> Inr (toUpperCase s)
      | JUndefined \<Rightarrow> Inl (cannot_read ''undefined'' ''toUpperCase'')
      | JNull \<Rightarrow> Inl (cannot_read ''null'' ''toUpperCase'')
      | _ \<Rightarrow> Inl (TypeError ''data.bom_type.toUpperCase is not a function''))"

definition displayResults :: "jsval \<Rightarrow> ui \<Rightarrow> js_error option \<times> ui" where
  \<comment> \<open>the error thrown, if any, and the state the call leaves\<close>
  "displayResults result s0 =
     attempt (js_get result ''data'') s0 (\<lambda>data.
     attempt (js_get result ''files'') s0 (\<lambda>files.
     let s1 = s0\<lparr>uploadSection_display := DNone, resultsSection_display := DBlock\<rparr> in
     attempt (js_get data ''total_items'') s1 (\<lambda>total_items.
     attempt (if truthy total_items then Inr total_items
              else (case js_get data ''items'' of
                      Inl e \<Rightarrow> Inl e
                    | Inr items \<Rightarrow> js_get items ''length'')) s1 (\<lambda>total.
     let s2 = s1\<lparr>totalItems_text := textContent_of total\<rparr> in
     attempt (js_get data ''bom_type'') s2 (\<lambda>bom_type.
     attempt (call_toUpperCase bom_type) s2 (\<lambda>label.
     let s3 = s2\<lparr>bomTypeDisplay_text := label\<rparr> in
     attempt (js_get data ''document_title'') s3 (\<lambda>document_title.
     let s4 = s3\<lparr>documentTitle_text :=
                   textContent_of (if truthy document_title then document_title
                                   else JStr ''BOM Document'')\<rparr> in
     attempt (js_get data ''items'') s4 (\<lambda>items.
     attempt (createTable items) s4 (\<lambda>html.
     let s5 = s4\<lparr>dataTable_innerHTML := html\<rparr> in
     (None, s5\<lparr>download_files := Some files\<rparr>))))))))))"

subsection \<open>The submit handler (lines 50 to 84)\<close>

text \<open>The form data posted to \<open>/upload\<close>: the fields \<open>file\<close> and \<open>bom_type\<close>.\<close>

record request =
  req_file :: file_obj
  req_bom_type :: string

text \<open>
  How the awaited request ends: \<open>fetch\<close> rejects (a transport failure), or a response
  arrives, with its \<open>ok\<close> flag and with what \<open>response.json()\<close> gives, the parsed body or
  the error it rejects with.
\<close>

datatype fetch_outcome =
    Rejected js_error
  | Responded bool "js_error + jsval"

definition submit_begin :: "ui \<Rightarrow> ui \<times> request option" where
  \<comment> \<open>the handler up to the call of \<open>fetch\<close>: the state, and the request issued, if any\<close>
  "submit_begin s =
     (case currentFiles s of
        None \<Rightarrow> (showError (JStr ''Please select a file'') s, None)
      | Some [] \<Rightarrow> (showError (JStr ''Please select a file'') s, None)
      | Some (file # others) \<Rightarrow>
          (hideError (setLoading True s),
           Some \<lparr>req_file = file, req_bom_type = bomType_value s\<rparr>))"

definition submit_resume :: "fetch_outcome \<Rightarrow> ui \<Rightarrow> ui" where
  \<comment> \<open>the handler from the point where the awaited \<open>fetch\<close> has ended: the \<open>try\<close> block,
      then \<open>catch\<close>, then \<open>finally\<close>\<close>
  "submit_resume outcome s =
     (let (thrown, s1) =
        (case outcome of
           Rejected e \<Rightarrow> (Some e, s)
         | Responded ok body \<Rightarrow>
             attempt body s (\<lambda>result.
             attempt (if ok then js_get result ''success'' else Inr (JBool False)) s (\<lambda>c.
             if truthy c then displayResults result s
             else attempt (js_get result ''error'') s (\<lambda>err.
                    (None, showError (if truthy err then err
                                      else JStr ''An error occurred during extraction'') s)))));
          s2 = (case thrown of
                  None \<Rightarrow> s1
                | Some e \<Rightarrow> showError (JStr (''Network error: '' @ error_message e)) s1)
      in setLoading False s2)"

subsection \<open>The events the page delivers to the script (lines 16 to 34, 50, 188, 189)\<close>

datatype event =
    Change "file_obj list"
  | DragOver
  | DragLeave
  | Drop "file_obj list"
  | Submit
  | FetchEnded fetch_outcome
  | NewUploadClick
  | RetryClick

fun handle :: "event \<Rightarrow> ui \<Rightarrow> ui" where
  "handle (Change files) s = handleFileSelect files s"
| "handle DragOver s = s\<lparr>fileLabel_drag_over := True\<rparr>"
| "handle DragLeave s = s\<lparr>fileLabel_drag_over := False\<rparr>"
| "handle (Drop files) s = handleFileSelect files (s\<lparr>fileLabel_drag_over := False\<rparr>)"
| "handle Submit s = fst (submit_begin s)"
| "handle (FetchEnded outcome) s = submit_resume outcome s"
| "handle NewUploadClick s = resetForm s"
| "handle RetryClick s = resetForm s"

definition run :: "event list \<Rightarrow> ui \<Rightarrow> ui" where
  "run events s = foldl (\<lambda>s e. handle e s) s events"

text \<open>
  Modelled from the spec: the page's markup and stylesheet (templates/index.html and
  static/css/style.css) are not under src/. The state machine of the specification
  starts in Upload: the Upload section shown, Results and Error hidden, nothing selected,
  the submit control enabled with its label shown. The label text is the one
  \<open>resetForm\<close> restores; the preselected mode is \<open>simple\<close>.
\<close>

definition page_load :: ui where
  "page_load =
     \<lparr>currentFiles = None,
      fileName_text = ''Choose PDF file or drag & drop'',
      fileLabel_has_file = False,
      fileLabel_drag_over = False,
      bomType_value = ''simple'',
      bomType_default = ''simple'',
      submitBtn_disabled = False,
      btnText_display = DBlock,
      btnLoader_display = DNone,
      uploadSection_display = DBlock,
      resultsSection_display = DNone,
      errorSection_display = DNone,
      errorMessage_text = [],
      totalItems_text = [],
      bomTypeDisplay_text = [],
      documentTitle_text = [],
      dataTable_innerHTML = [],
      download_files = None\<rparr>"

subsection \<open>Inputs used in the examples\<close>

text \<open>
  The files and the response of the specification's scenario (a PDF \<open>bom.pdf\<close>, and the
  success response with one item), a text file, and two further success responses.
\<close>

definition bom_pdf :: file_obj where
  "bom_pdf = \<lparr>file_name = ''bom.pdf'', file_type = ''application/pdf''\<rparr>"

definition notes_txt :: file_obj where
  "notes_txt = \<lparr>file_name = ''notes.txt'', file_type = ''text/plain''\<rparr>"

definition scenario_response :: jsval where
  "scenario_response =
     JObj [(''success'', JBool True),
           (''data'', JObj [(''items'', JArr [JObj [(''part'', JStr ''R1''), (''qty'', JNum 10)]]),
                            (''bom_type'', JStr ''simple'')]),
           (''files'', JObj [(''json'', JStr ''a1''), (''csv'', JStr ''a1'')])]"



section \<open>Properties\<close>


declare spec_segments.simps [simp del]

subsection \<open>formatHeader against the specification's reading\<close>

lemma spec_segments_last:
  "dropWhile (\<lambda>c. c \<noteq> CHR ''_'') s = [] \<Longrightarrow> spec_segments s = [s]"
  by (subst spec_segments.simps) (simp del: dropWhile_eq_Nil_conv)

lemma spec_segments_more:
  "dropWhile (\<lambda>c. c \<noteq> CHR ''_'') s = u # r \<Longrightarrow>
   spec_segments s = takeWhile (\<lambda>c. c \<noteq> CHR ''_'') s # spec_segments r"
  by (subst spec_segments.simps) simp

lemma js_split_segments: "js_split (CHR ''_'') s = spec_segments s"
proof (induction s)
  case Nil
  show ?case by (simp add: spec_segments_last)
next
  case (Cons c cs)
  show ?case
  proof (cases "c = CHR ''_''")
    case True
    then show ?thesis using Cons by (simp add: spec_segments_more [of "CHR ''_'' # cs" c cs])
  next
    case False
    show ?thesis
    proof (cases "dropWhile (\<lambda>c. c \<noteq> CHR ''_'') cs")
      case Nil
      have "spec_segments cs = [cs]"
        using Nil by (rule spec_segments_last)
      moreover have "spec_segments (c # cs) = [c # cs]"
        using Nil False by (intro spec_segments_last) (simp del: dropWhile_eq_Nil_conv)
      ultimately show ?thesis using Cons False by simp
    next
      case (Cons u r)
      have "spec_segments cs = takeWhile (\<lambda>c. c \<noteq> CHR ''_'') cs # spec_segments r"
        using Cons by (rule spec_segments_more)
      moreover have "spec_segments (c # cs) =
          takeWhile (\<lambda>c. c \<noteq> CHR ''_'') (c # cs) # spec_segments r"
        using Cons False by (intro spec_segments_more) simp
      ultimately show ?thesis using Cons.IH False by simp
    qed
  qed
qed

lemma foldl_join: "foldl (\<lambda>r y. r @ sep @ y) x rest = x @ concat (map (\<lambda>y. sep @ y) rest)"
  by (induction rest arbitrary: x) auto

lemma spec_unwords_Cons: "spec_unwords (x # rest) = x @ concat (map (\<lambda>y. '' '' @ y) rest)"
  by (induction rest arbitrary: x) auto

lemma js_join_unwords: "js_join '' '' xs = spec_unwords xs"
  unfolding js_join_def by (cases xs) (simp_all only: list.case foldl_join spec_unwords_Cons spec_unwords.simps)

lemma capitalize_word: "toUpperCase (charAt w 0) @ slice w 1 = spec_capitalize w"
  by (cases w) (simp_all add: toUpperCase_def charAt_def slice_def)

subsection \<open>The table of a list of records\<close>

lemma inherited_defined:
  "map_of Object_prototype k = Some m \<Longrightarrow> m \<noteq> JNull \<and> m \<noteq> JUndefined"
  by (auto simp: Object_prototype_def split: if_splits)

lemma field_cell:
  "spec_cell rec key =
     (if field rec key = JNull \<or> field rec key = JUndefined then ''-''
      else escapeHtml (js_String (field rec key)))"
  by (auto simp: spec_cell_def field_def dest: inherited_defined split: option.splits)

lemma forEach_append:
  "forEach xs (\<lambda>x acc. Inr (acc @ g x)) acc = Inr (acc @ concat (map g xs))"
  by (induction xs arbitrary: acc) simp_all

lemma escapeHtml_dash: "escapeHtml ''-'' = ''-''"
  by (simp add: escapeHtml_def escape_char_def)

lemma render_cell_record:
  "render_cell (JObj rec) key html = Inr (html @ ''<td>'' @ spec_cell rec key @ ''</td>'')"
  by (simp add: render_cell_def field_cell escapeHtml_dash)

lemma render_row_record:
  "render_row keys (JObj rec) html = Inr (html @ spec_row keys rec)"
proof -
  have "render_cell (JObj rec) = (\<lambda>key acc. Inr (acc @ ''<td>'' @ spec_cell rec key @ ''</td>''))"
    by (intro ext) (rule render_cell_record)
  then show ?thesis
    by (simp add: render_row_def spec_row_def forEach_append)
qed

lemma forEach_rows:
  "forEach (map JObj recs) (render_row keys) acc = Inr (acc @ concat (map (spec_row keys) recs))"
  by (induction recs arbitrary: acc) (simp_all add: render_row_record)

lemma show_nat_0: "show_nat 0 = ''0''"
  by (simp add: show_nat.simps)

lemma js_get_first: "js_get (JArr (x # xs)) ''0'' = Inr x"
  by (simp add: array_index_def upt_rec show_nat_0)

lemma js_get_length: "js_get (JArr xs) ''length'' = Inr (JNum (int (length xs)))"
  by simp

lemma createTable_records:
  "createTable (JArr (map JObj (r # rs))) = Inr (spec_table (map fst r) (r # rs))"
proof -
  have "js_get (JArr (map JObj (r # rs))) ''0'' = Inr (JObj r)"
    using js_get_first [of "JObj r" "map JObj rs"] by simp
  moreover have "js_forEach (JArr (map JObj (r # rs))) callee (render_row keys) acc =
      Inr (acc @ concat (map (spec_row keys) (r # rs)))" for callee keys acc
    using forEach_rows [of "r # rs"] by simp
  ultimately show ?thesis
    unfolding createTable_def js_get_length
    by (simp add: forEach_append spec_table_def del: js_get.simps js_forEach.simps list.map)
qed


lemma escapeHtml_no_angle:
  "CHR ''<'' \<notin> set (escapeHtml s) \<and> CHR ''>'' \<notin> set (escapeHtml s)"
  by (induction s) (simp_all add: escapeHtml_def escape_char_def)

lemma spec_cell_no_angle:
  "CHR ''<'' \<notin> set (spec_cell rec key) \<and> CHR ''>'' \<notin> set (spec_cell rec key)"
  by (simp add: field_cell escapeHtml_no_angle)
















lemma count_concat_map:
  "(\<And>k. length (filter P (g k)) = n) \<Longrightarrow>
   length (filter P (concat (map g keys))) = n * length keys"
  by (induction keys) simp_all

lemma count_lt_cell:
  "length (filter (\<lambda>c. c = CHR ''<'') (''<td>'' @ spec_cell rec key @ ''</td>'')) = 2"
proof -
  have "filter (\<lambda>c. c = CHR ''<'') (spec_cell rec key) = []"
    using spec_cell_no_angle [of rec key] by (auto simp: filter_empty_conv)
  then show ?thesis by simp
qed

lemma count_lt_row:
  "length (filter (\<lambda>c. c = CHR ''<'') (spec_row keys rec)) = 2 * length keys + 2"
proof -
  have "length (filter (\<lambda>c. c = CHR ''<'')
      (concat (map (\<lambda>key. ''<td>'' @ spec_cell rec key @ ''</td>'') keys))) = 2 * length keys"
    by (rule count_concat_map) (rule count_lt_cell)
  then show ?thesis by (simp add: spec_row_def)
qed

lemma header_in_table:
  assumes "key \<in> set keys"
  shows "sublist (''<th>'' @ formatHeader key @ ''</th>'') (spec_table keys recs)"
proof -
  obtain ks1 ks2 where "keys = ks1 @ key # ks2"
    using assms by (auto simp: in_set_conv_decomp)
  then have "spec_table keys recs =
      (''<table><thead><tr>'' @ concat (map (\<lambda>key. ''<th>'' @ formatHeader key @ ''</th>'') ks1))
      @ (''<th>'' @ formatHeader key @ ''</th>'')
      @ (concat (map (\<lambda>key. ''<th>'' @ formatHeader key @ ''</th>'') ks2)
         @ ''</tr></thead><tbody>'' @ concat (map (spec_row keys) recs) @ ''</tbody></table>'')"
    by (simp add: spec_table_def)
  then show ?thesis
    by (metis sublist_appendI)
qed

subsection \<open>Claims about formatHeader\<close>

text \<open>
  C9: formatHeader is a pure function of its key, equal to splitting the key on
  underscores, capitalising the first letter of each segment and joining the segments
  with single spaces; \<open>unit_cost\<close> gives \<open>Unit Cost\<close>, \<open>qty\<close> gives \<open>Qty\<close> and
  \<open>document_title\<close> gives \<open>Document Title\<close>.
\<close>

theorem formatHeader_refines_spec:
  "formatHeader key = spec_formatHeader key \<and>
   formatHeader ''unit_cost'' = ''Unit Cost'' \<and>
   formatHeader ''qty'' = ''Qty'' \<and>
   formatHeader ''document_title'' = ''Document Title''"
proof -
  have "formatHeader key = spec_formatHeader key"
    unfolding formatHeader_def spec_formatHeader_def js_split_segments js_join_unwords
      capitalize_word ..
  moreover have "formatHeader ''unit_cost'' = ''Unit Cost''"
    by (simp add: formatHeader_def js_join_def toUpperCase_def charAt_def slice_def toUpper_def)
  moreover have "formatHeader ''qty'' = ''Qty''"
    by (simp add: formatHeader_def js_join_def toUpperCase_def charAt_def slice_def toUpper_def)
  moreover have "formatHeader ''document_title'' = ''Document Title''"
    by (simp add: formatHeader_def js_join_def toUpperCase_def charAt_def slice_def toUpper_def)
  ultimately show ?thesis by simp
qed

theorem formatHeader_refines_spec_witness:
  "formatHeader ''part_number'' = spec_formatHeader ''part_number'' \<and>
   formatHeader ''part_number'' = ''Part Number''"
proof -
  have "formatHeader ''part_number'' = ''Part Number''"
    by (simp add: formatHeader_def js_join_def toUpperCase_def charAt_def slice_def toUpper_def)
  then show ?thesis
    using formatHeader_refines_spec [of "''part_number''"] by simp
qed


lemma spec_row_order:
  assumes "distinct (map fst rec)" and "distinct (map fst rec')" and "set rec = set rec'"
  shows "spec_row keys rec = spec_row keys rec'"
proof -
  have "map_of rec = map_of rec'"
    using assms by (simp add: map_of_inject_set)
  then show ?thesis by (simp add: spec_row_def spec_cell_def)
qed

subsection \<open>Claims about createTable\<close>



text \<open>
  C7, as amended: for every non-empty list of records (each key once and in the order of
  \<open>Object.keys\<close>, with values that \<open>js_String\<close> converts as \<open>String\<close> does), createTable
  takes the column keys and their
  order from the first record and renders a rectangular table, not a ragged one: every
  row has exactly one cell per column key, in the order of the headers, showing the value
  the record has under that key, so all rows have the same number of tags, and the order
  of a record's own entries does not change its row.
\<close>

theorem createTable_columns_from_first_record:
  assumes "\<forall>rec\<in>set (r # rs). plain_record rec"
  shows "createTable (JArr (map JObj (r # rs))) = Inr (spec_table (map fst r) (r # rs)) \<and>
    (\<forall>rec\<in>set (r # rs).
       length (filter (\<lambda>c. c = CHR ''<'') (spec_row (map fst r) rec)) = 2 * length r + 2) \<and>
    (\<forall>rec\<in>set (r # rs).
       plain_record rec' \<and> set rec' = set rec \<longrightarrow>
       spec_row (map fst r) rec' = spec_row (map fst r) rec)"
proof -
  have "\<forall>rec\<in>set (r # rs).
       plain_record rec' \<and> set rec' = set rec \<longrightarrow>
       spec_row (map fst r) rec' = spec_row (map fst r) rec"
    using assms spec_row_order [of rec' _ "map fst r"] by (auto simp: plain_record_def)
  moreover have "\<forall>rec\<in>set (r # rs).
       length (filter (\<lambda>c. c = CHR ''<'') (spec_row (map fst r) rec)) = 2 * length r + 2"
    by (simp add: count_lt_row)
  ultimately show ?thesis
    using createTable_records [of r rs] by blast
qed

theorem createTable_columns_from_first_record_witness:
  "createTable (JArr [JObj [(''part'', JStr ''R1''), (''qty'', JNum 10)],
                      JObj [(''qty'', JNum 5), (''note'', JStr ''x'')]]) =
     Inr ''<table><thead><tr><th>Part</th><th>Qty</th></tr></thead><tbody><tr><td>R1</td><td>10</td></tr><tr><td>-</td><td>5</td></tr></tbody></table>'' \<and>
   length (filter (\<lambda>c. c = CHR ''<'')
     (spec_row [''part'', ''qty''] [(''qty'', JNum 5), (''note'', JStr ''x'')])) = 6 \<and>
   spec_row [''part'', ''qty''] [(''note'', JStr ''x''), (''qty'', JNum 5)] =
     spec_row [''part'', ''qty''] [(''qty'', JNum 5), (''note'', JStr ''x'')]"
proof -
  let ?r = "[(''part'', JStr ''R1''), (''qty'', JNum 10)]"
  let ?s = "[(''qty'', JNum 5), (''note'', JStr ''x'')]"
  let ?s' = "[(''note'', JStr ''x''), (''qty'', JNum 5)]"
  have ok: "\<forall>rec\<in>set [?r, ?s]. plain_record rec"
    by code_simp
  have "plain_record ?s'"
    by code_simp
  then have same: "plain_record ?s' \<and> set ?s' = set ?s"
    by auto
  have table: "spec_table (map fst ?r) [?r, ?s] =
      ''<table><thead><tr><th>Part</th><th>Qty</th></tr></thead><tbody><tr><td>R1</td><td>10</td></tr><tr><td>-</td><td>5</td></tr></tbody></table>''"
    by (simp add: spec_table_def spec_row_def spec_cell_def Object_prototype_def escapeHtml_def
        escape_char_def formatHeader_def js_join_def toUpperCase_def charAt_def slice_def
        toUpper_def show_int_def show_nat.simps)
  note inst = createTable_columns_from_first_record [OF ok, of ?s']
  have "createTable (JArr (map JObj [?r, ?s])) =
      Inr ''<table><thead><tr><th>Part</th><th>Qty</th></tr></thead><tbody><tr><td>R1</td><td>10</td></tr><tr><td>-</td><td>5</td></tr></tbody></table>''"
    using inst unfolding table by blast
  moreover have "length (filter (\<lambda>c. c = CHR ''<'') (spec_row (map fst ?r) ?s)) = 2 * length ?r + 2"
    using inst by simp
  moreover have "spec_row (map fst ?r) ?s' = spec_row (map fst ?r) ?s"
    using inst same by simp
  ultimately show ?thesis by simp
qed

text \<open>
  C7 as stated fails: a second record with keys of its own is not rendered with those
  keys. The code yields one placeholder cell under the first record's column, where the
  ragged reading has two cells for \<open>qty\<close> and \<open>note\<close>.
\<close>

theorem createTable_ragged_counterexample:
  "createTable (JArr [JObj [(''part'', JStr ''R1'')], JObj [(''qty'', JNum 5), (''note'', JStr ''x'')]]) =
     Inr ''<table><thead><tr><th>Part</th></tr></thead><tbody><tr><td>R1</td></tr><tr><td>-</td></tr></tbody></table>'' \<and>
   spec_ragged_table [[(''part'', JStr ''R1'')], [(''qty'', JNum 5), (''note'', JStr ''x'')]] =
     ''<table><thead><tr><th>Part</th></tr></thead><tbody><tr><td>R1</td></tr><tr><td>5</td><td>x</td></tr></tbody></table>'' \<and>
   createTable (JArr [JObj [(''part'', JStr ''R1'')], JObj [(''qty'', JNum 5), (''note'', JStr ''x'')]]) \<noteq>
     Inr (spec_ragged_table [[(''part'', JStr ''R1'')], [(''qty'', JNum 5), (''note'', JStr ''x'')]])"
proof -
  have "createTable (JArr (map JObj [[(''part'', JStr ''R1'')], [(''qty'', JNum 5), (''note'', JStr ''x'')]])) =
     Inr ''<table><thead><tr><th>Part</th></tr></thead><tbody><tr><td>R1</td></tr><tr><td>-</td></tr></tbody></table>''"
    unfolding createTable_records
    by (simp add: spec_table_def spec_row_def spec_cell_def Object_prototype_def escapeHtml_def
        escape_char_def formatHeader_def js_join_def toUpperCase_def charAt_def slice_def
        toUpper_def)
  moreover have "spec_ragged_table [[(''part'', JStr ''R1'')], [(''qty'', JNum 5), (''note'', JStr ''x'')]] =
     ''<table><thead><tr><th>Part</th></tr></thead><tbody><tr><td>R1</td></tr><tr><td>5</td><td>x</td></tr></tbody></table>''"
    by (simp add: spec_ragged_table_def spec_row_def spec_cell_def escapeHtml_def escape_char_def
        formatHeader_def js_join_def toUpperCase_def charAt_def slice_def toUpper_def
        show_int_def show_nat.simps)
  ultimately show ?thesis by simp
qed

text \<open>
  C10: column headers are inserted without HTML-escaping. A first record whose key is
  \<open><b>x</b>\<close> gives a header cell with that markup raw, where \<open>escapeHtml\<close> would have
  given character references; in general every key of the first record appears in the
  output as \<open><th>\<close>, \<open>formatHeader key\<close>, \<open></th>\<close>, with no escaping applied.
\<close>

theorem createTable_headers_raw:
  "createTable (JArr [JObj [(''<b>x</b>'', JNum 1)]]) =
     Inr ''<table><thead><tr><th><b>x</b></th></tr></thead><tbody><tr><td>1</td></tr></tbody></table>'' \<and>
   escapeHtml ''<b>x</b>'' = ''&lt;b&gt;x&lt;/b&gt;'' \<and>
   (\<forall>key\<in>set (map fst r).
      \<exists>html. createTable (JArr (map JObj (r # rs))) = Inr html \<and>
             sublist (''<th>'' @ formatHeader key @ ''</th>'') html)"
proof -
  have "createTable (JArr (map JObj [[(''<b>x</b>'', JNum 1)]])) =
     Inr ''<table><thead><tr><th><b>x</b></th></tr></thead><tbody><tr><td>1</td></tr></tbody></table>''"
    unfolding createTable_records
    by (simp add: spec_table_def spec_row_def spec_cell_def escapeHtml_def escape_char_def
        formatHeader_def js_join_def toUpperCase_def charAt_def slice_def toUpper_def
        show_int_def show_nat.simps)
  moreover have "escapeHtml ''<b>x</b>'' = ''&lt;b&gt;x&lt;/b&gt;''"
    by (simp add: escapeHtml_def escape_char_def)
  moreover have "\<forall>key\<in>set (map fst r).
      \<exists>html. createTable (JArr (map JObj (r # rs))) = Inr html \<and>
             sublist (''<th>'' @ formatHeader key @ ''</th>'') html"
    using createTable_records [of r rs] header_in_table [of _ "map fst r" "r # rs"] by blast
  ultimately show ?thesis by simp
qed

theorem createTable_headers_raw_witness:
  "\<exists>html. createTable (JArr [JObj [(''<img src=x onerror=alert(1)>'', JStr ''R1'')]]) = Inr html \<and>
          sublist ''<th><img src=x onerror=alert(1)></th>'' html"
proof -
  have "formatHeader ''<img src=x onerror=alert(1)>'' = ''<img src=x onerror=alert(1)>''"
    by (simp add: formatHeader_def js_join_def toUpperCase_def charAt_def slice_def toUpper_def)
  then show ?thesis
    using createTable_headers_raw [of "[(''<img src=x onerror=alert(1)>'', JStr ''R1'')]" "[]"]
    by simp
qed

subsection \<open>The controller's state\<close>

lemmas ui_defs = showError_def hideError_def resetForm_def setLoading_def handleFileSelect_def
  textContent_of_def

lemma js_get_JObj: "js_get (JObj kvs) k = Inr (field kvs k)"
  by simp

lemma truthy_textContent: "truthy v \<Longrightarrow> textContent_of v = js_String v"
  by (cases v) (simp_all add: textContent_of_def)

lemma textContent_JNum: "textContent_of (JNum n) = show_int n"
  by (simp add: textContent_of_def)

lemma textContent_JStr: "textContent_of (JStr t) = t"
  by (simp add: textContent_of_def)

lemma total_or_length:
  "field d ''items'' = JArr xs \<Longrightarrow>
   (if truthy ti then Inr ti
    else (case js_get (JObj d) ''items'' of
            Inl e \<Rightarrow> Inl e
          | Inr items \<Rightarrow> js_get items ''length'')) =
   Inr (if truthy ti then ti else JNum (int (length xs)))"
  by (simp add: js_get_JObj del: js_get.simps) simp

lemma textContent_total:
  "textContent_of (if truthy ti then ti else JNum n) =
   (if truthy ti then js_String ti else show_int n)"
  by (simp add: truthy_textContent) (simp add: textContent_of_def)

lemma textContent_title:
  "textContent_of (if truthy dt then dt else JStr t) = (if truthy dt then js_String dt else t)"
  by (simp add: truthy_textContent) (simp add: textContent_of_def)

lemma displayResults_summary:
  assumes "js_get result ''data'' = Inr (JObj d)"
    and "js_get result ''files'' = Inr files"
    and "field d ''items'' = JArr xs"
    and "field d ''bom_type'' = JStr bt"
  shows "displayResults result s =
    (let s4 = s\<lparr>uploadSection_display := DNone,
                 resultsSection_display := DBlock,
                 totalItems_text :=
                   (if truthy (field d ''total_items'') then js_String (field d ''total_items'')
                    else show_int (int (length xs))),
                 bomTypeDisplay_text := toUpperCase bt,
                 documentTitle_text :=
                   (if truthy (field d ''document_title'') then js_String (field d ''document_title'')
                    else ''BOM Document'')\<rparr>
     in case createTable (JArr xs) of
          Inl e \<Rightarrow> (Some e, s4)
        | Inr html \<Rightarrow> (None, s4\<lparr>dataTable_innerHTML := html, download_files := Some files\<rparr>))"
proof -
  have total: "(if truthy (field d ''total_items'') then Inr (field d ''total_items'')
      else (case js_get (JObj d) ''items'' of
              Inl e \<Rightarrow> Inl e
            | Inr items \<Rightarrow> js_get items ''length'')) =
      Inr (if truthy (field d ''total_items'') then field d ''total_items''
           else JNum (int (length xs)))"
    using assms(3) by (rule total_or_length)
  have label: "call_toUpperCase (JStr bt) = Inr (toUpperCase bt)"
    by (simp add: call_toUpperCase_def)
  show ?thesis
    unfolding displayResults_def assms(1) assms(2) attempt_def sum.case js_get_JObj Let_def
      total assms(3) assms(4) label textContent_total textContent_title
    by (cases "createTable (JArr xs)")
       (auto simp: truthy_textContent textContent_JNum textContent_JStr)
qed




lemma submit_resume_response:
  assumes "js_get result ''success'' = Inr c"
  shows "submit_resume (Responded ok (Inr result)) s =
    setLoading False
      (if ok \<and> truthy c
       then (case displayResults result s of
               (None, s1) \<Rightarrow> s1
             | (Some e, s1) \<Rightarrow> showError (JStr (''Network error: '' @ error_message e)) s1)
       else (case js_get result ''error'' of
               Inl e \<Rightarrow> showError (JStr (''Network error: '' @ error_message e)) s
             | Inr err \<Rightarrow>
                 showError (if truthy err then err
                            else JStr ''An error occurred during extraction'') s))"
  using assms
  by (auto simp: submit_resume_def attempt_def Let_def split: prod.splits option.splits sum.splits)

subsection \<open>Claims about file selection and submission\<close>

text \<open>
  C8: for every selection, by the picker or by a drop, whose first file is not of type
  \<open>application/pdf\<close>, the Error section is shown with the message
  \<open>Please select a PDF file\<close>, and the selection is not updated: \<open>currentFiles\<close>, the
  displayed file name and the has-file marker are as they were.
\<close>

theorem non_pdf_selection_rejected:
  assumes "file_type file \<noteq> ''application/pdf''"
    and "s' = handle (Change (file # others)) s \<or> s' = handle (Drop (file # others)) s"
  shows "errorMessage_text s' = ''Please select a PDF file'' \<and>
         errorSection_display s' = DBlock \<and>
         uploadSection_display s' = DNone \<and>
         resultsSection_display s' = DNone \<and>
         currentFiles s' = currentFiles s \<and>
         fileName_text s' = fileName_text s \<and>
         fileLabel_has_file s' = fileLabel_has_file s"
  using assms by (auto simp: ui_defs)

theorem non_pdf_selection_rejected_witness:
  "errorMessage_text (handle (Drop [notes_txt]) (handle (Change [bom_pdf]) page_load)) =
     ''Please select a PDF file'' \<and>
   currentFiles (handle (Drop [notes_txt]) (handle (Change [bom_pdf]) page_load)) = Some [bom_pdf] \<and>
   fileName_text (handle (Drop [notes_txt]) (handle (Change [bom_pdf]) page_load)) = ''bom.pdf'' \<and>
   fileLabel_has_file (handle (Drop [notes_txt]) (handle (Change [bom_pdf]) page_load))"
proof -
  have "file_type notes_txt \<noteq> ''application/pdf''"
    by (simp add: notes_txt_def)
  from non_pdf_selection_rejected [OF this, of _ "[]" "handle (Change [bom_pdf]) page_load"]
  show ?thesis
    by (simp add: handleFileSelect_def bom_pdf_def page_load_def)
qed

text \<open>
  C4: a submission with no file selected (\<open>currentFiles\<close> is \<open>null\<close> or empty) shows the
  message \<open>Please select a file\<close> and returns at once, leaving the submit control as it
  was; no request is issued, and a request is issued exactly when a file is selected.
\<close>

theorem submit_without_file:
  "(snd (submit_begin s) = None) = (currentFiles s = None \<or> currentFiles s = Some []) \<and>
   (currentFiles s = None \<or> currentFiles s = Some [] \<longrightarrow>
      submit_begin s = (showError (JStr ''Please select a file'') s, None) \<and>
      errorMessage_text (handle Submit s) = ''Please select a file'' \<and>
      errorSection_display (handle Submit s) = DBlock \<and>
      submitBtn_disabled (handle Submit s) = submitBtn_disabled s)"
  by (auto simp: submit_begin_def ui_defs split: option.splits list.splits)

theorem submit_without_file_witness:
  "submit_begin page_load = (showError (JStr ''Please select a file'') page_load, None) \<and>
   errorMessage_text (handle Submit page_load) = ''Please select a file'' \<and>
   snd (submit_begin (handle (Change [bom_pdf]) page_load)) =
     Some \<lparr>req_file = bom_pdf, req_bom_type = ''simple''\<rparr>"
proof -
  have "currentFiles page_load = None" by (simp add: page_load_def)
  then show ?thesis
    using submit_without_file [of page_load]
    by (simp add: submit_begin_def handleFileSelect_def bom_pdf_def page_load_def)
qed

text \<open>
  C5: a submission that issues its request has entered the Loading sub-state (submit
  control disabled, label hidden, progress indicator shown), and however the awaited
  request ends (a response handled as success, a response handled as failure, or an error
  thrown by the request, by parsing or by processing), and whatever state the page is in
  by then, the handler leaves the submit control enabled, the label shown and the
  progress indicator hidden.
\<close>

theorem loading_always_exited:
  "(submit_begin s0 = (s1, Some req) \<longrightarrow>
      submitBtn_disabled s1 \<and> btnText_display s1 = DNone \<and> btnLoader_display s1 = DFlex) \<and>
   \<not> submitBtn_disabled (submit_resume outcome s) \<and>
   btnText_display (submit_resume outcome s) = DBlock \<and>
   btnLoader_display (submit_resume outcome s) = DNone"
  by (auto simp: submit_begin_def submit_resume_def ui_defs Let_def
      split: option.splits list.splits prod.splits)


theorem loading_always_exited_witness:
  "\<not> submitBtn_disabled
      (submit_resume (Responded True (Inr scenario_response)) (fst (submit_begin (handle (Change [bom_pdf]) page_load)))) \<and>
   \<not> submitBtn_disabled
      (submit_resume (Responded False (Inr (JObj [(''success'', JBool False), (''error'', JStr ''Unreadable PDF'')])))
         (fst (submit_begin (handle (Change [bom_pdf]) page_load)))) \<and>
   \<not> submitBtn_disabled
      (submit_resume (Rejected (TypeError ''Failed to fetch''))
         (fst (submit_begin (handle (Change [bom_pdf]) page_load)))) \<and>
   submitBtn_disabled (fst (submit_begin (handle (Change [bom_pdf]) page_load)))"
proof -
  let ?s = "handle (Change [bom_pdf]) page_load"
  have "submit_begin ?s = (fst (submit_begin ?s), Some \<lparr>req_file = bom_pdf, req_bom_type = ''simple''\<rparr>)"
    by (simp add: submit_begin_def handleFileSelect_def bom_pdf_def page_load_def)
  then show ?thesis
    using loading_always_exited [of ?s "fst (submit_begin ?s)" "\<lparr>req_file = bom_pdf, req_bom_type = ''simple''\<rparr>"
        "Responded True (Inr scenario_response)" "fst (submit_begin ?s)"]
      loading_always_exited [of ?s "fst (submit_begin ?s)" "\<lparr>req_file = bom_pdf, req_bom_type = ''simple''\<rparr>"
        "Responded False (Inr (JObj [(''success'', JBool False), (''error'', JStr ''Unreadable PDF'')]))" "fst (submit_begin ?s)"]
      loading_always_exited [of ?s "fst (submit_begin ?s)" "\<lparr>req_file = bom_pdf, req_bom_type = ''simple''\<rparr>"
        "Rejected (TypeError ''Failed to fetch'')" "fst (submit_begin ?s)"]
    by blast
qed

subsection \<open>Claims about responses and results\<close>







subsection \<open>Claim about the visible sections\<close>

lemma scenario_fields:
  "js_get scenario_response ''success'' = Inr (JBool True)"
  "js_get scenario_response ''data'' =
     Inr (JObj [(''items'', JArr [JObj [(''part'', JStr ''R1''), (''qty'', JNum 10)]]),
                (''bom_type'', JStr ''simple'')])"
  "js_get scenario_response ''files'' = Inr (JObj [(''json'', JStr ''a1''), (''csv'', JStr ''a1'')])"
  by (simp_all add: scenario_response_def field_def)

lemma late_response_after_error:
  "visible_sections (submit_resume (Responded True (Inr scenario_response)) (showError m s)) = 2"
proof -
  have items: "field [(''items'', JArr [JObj [(''part'', JStr ''R1''), (''qty'', JNum 10)]]),
                (''bom_type'', JStr ''simple'')] ''items'' =
      JArr (map JObj [[(''part'', JStr ''R1''), (''qty'', JNum 10)]])"
    and mode: "field [(''items'', JArr [JObj [(''part'', JStr ''R1''), (''qty'', JNum 10)]]),
                (''bom_type'', JStr ''simple'')] ''bom_type'' = JStr ''simple''"
    by (simp_all add: field_def Object_prototype_def)
  show ?thesis
    unfolding submit_resume_response [OF scenario_fields(1)]
      displayResults_summary [OF scenario_fields(2,3) items mode] createTable_records
    by (simp add: visible_sections_def visible_def setLoading_def showError_def)
qed

lemma showError_one_visible: "visible_sections (showError m s) = 1"
  by (simp add: visible_sections_def visible_def showError_def)

lemma resetForm_one_visible: "visible_sections (resetForm s) = 1"
  by (simp add: visible_sections_def visible_def resetForm_def)

text \<open>
  C2: exactly one of the Upload, Results and Error sections is visible in every reachable
  state. The code breaks this: from the loaded page, select \<open>bom.pdf\<close>, submit, drop a text
  file on the label while the request is in flight (the Error section alone is shown),
  then let the success response arrive. displayResults hides Upload and shows Results but,
  unlike showError and resetForm, leaves the third section alone: Results and Error are
  both visible. The same four events end with two visible sections from every state.
\<close>

theorem results_and_error_both_visible:
  "visible_sections (run [Change [bom_pdf], Submit, Drop [notes_txt]] page_load) = 1 \<and>
   visible_sections
     (run [Change [bom_pdf], Submit, Drop [notes_txt],
           FetchEnded (Responded True (Inr scenario_response))] page_load) = 2 \<and>
   resultsSection_display
     (run [Change [bom_pdf], Submit, Drop [notes_txt],
           FetchEnded (Responded True (Inr scenario_response))] page_load) = DBlock \<and>
   errorSection_display
     (run [Change [bom_pdf], Submit, Drop [notes_txt],
           FetchEnded (Responded True (Inr scenario_response))] page_load) = DBlock \<and>
   visible_sections
     (run [Change [bom_pdf], Submit, Drop [notes_txt],
           FetchEnded (Responded True (Inr scenario_response))] s) = 2"
proof -
  have "handle (Drop [notes_txt]) s' =
      showError (JStr ''Please select a PDF file'') (s'\<lparr>fileLabel_drag_over := False\<rparr>)" for s'
    by (simp add: handleFileSelect_def notes_txt_def)
  then have "visible_sections
     (run [Change [bom_pdf], Submit, Drop [notes_txt],
           FetchEnded (Responded True (Inr scenario_response))] s) = 2"
    by (simp add: run_def late_response_after_error del: handle.simps(4))
  moreover have "visible_sections (run [Change [bom_pdf], Submit, Drop [notes_txt]] page_load) = 1 \<and>
   visible_sections
     (run [Change [bom_pdf], Submit, Drop [notes_txt],
           FetchEnded (Responded True (Inr scenario_response))] page_load) = 2 \<and>
   resultsSection_display
     (run [Change [bom_pdf], Submit, Drop [notes_txt],
           FetchEnded (Responded True (Inr scenario_response))] page_load) = DBlock \<and>
   errorSection_display
     (run [Change [bom_pdf], Submit, Drop [notes_txt],
           FetchEnded (Responded True (Inr scenario_response))] page_load) = DBlock"
    by code_simp
  ultimately show ?thesis by simp
qed

theorem results_and_error_both_visible_witness:
  "visible_sections
     (run [Change [bom_pdf], Submit, Drop [notes_txt],
           FetchEnded (Responded True (Inr scenario_response))] page_load) \<noteq> 1"
  using results_and_error_both_visible by simp

end
